theory Spec2Isabelle
  imports Complex_Main "HOL-Library.AList"
begin

section \<open>Python and tensor primitives used by \<open>pyg_dataloader_isr.py\<close>\<close>

text \<open>
  Exceptions the modelled code can raise. \<open>ValueError\<close>: \<open>max()\<close> of an empty sequence,
  \<open>np.eye\<close> of a negative size, and a \<open>DataLoader\<close> that shuffles an empty list or has a
  batch size that is not positive. \<open>IndexError\<close>: indexing a one-dimensional tensor with two
  indices, and fancy indexing out of range. \<open>RuntimeError\<close>: \<open>reshape(0, -1)\<close>.
  \<open>KeyError\<close>: a missing dictionary key. \<open>AttributeError\<close>: reading an attribute that was never
  assigned.
\<close>

datatype error = ValueError | IndexError | RuntimeError | KeyError | AttributeError

type_synonym edge = "int \<times> int"
type_synonym 'a matrix = "'a list list"
type_synonym 'a tensor3 = "'a list list list"
type_synonym ('k, 'v) dict = "('k \<times> 'v) list"

text \<open>\<open>range(n)\<close> for a Python integer \<open>n\<close>: empty when \<open>n \<le> 0\<close>.\<close>

definition range_py :: "int \<Rightarrow> int list" where
  "range_py n = map int [0..<nat n]"

text \<open>
  The slice \<open>xs[:k]\<close>. A negative bound counts from the end: \<open>xs[:-3]\<close> drops the last
  three elements.
\<close>

definition slice_to :: "int \<Rightarrow> 'a list \<Rightarrow> 'a list" where
  "slice_to k xs = (if 0 \<le> k then take (nat k) xs else take (length xs - nat (- k)) xs)"

text \<open>The strided slice \<open>xs[::k]\<close> for a positive stride: elements \<open>0, k, 2k, ...\<close>.\<close>

definition slice_step :: "nat \<Rightarrow> 'a list \<Rightarrow> 'a list" where
  "slice_step k xs = map (\<lambda>i. xs ! (i * k)) [0..<(length xs + k - 1) div k]"

text \<open>\<open>max(...)\<close> over a sequence of frame counts; Python raises \<open>ValueError\<close> when it is empty.\<close>

definition max_py :: "nat list \<Rightarrow> error + nat" where
  "max_py xs = (case xs of [] \<Rightarrow> Inl ValueError | y # ys \<Rightarrow> Inr (fold max ys y))"

text \<open>
  An integer tensor made by \<open>torch.tensor\<close> from a Python list of two-element rows.
  \<open>torch.tensor([])\<close> has shape \<open>(0,)\<close>, one dimension; from a non-empty list of pairs the
  shape is \<open>(len, 2)\<close>. A row slice of a two-dimensional tensor stays two-dimensional, also
  when no row is left.
\<close>

record edge_tensor =
  ndim :: nat
  rows :: "edge list"

definition torch_tensor :: "edge list \<Rightarrow> edge_tensor" where
  "torch_tensor es = \<lparr>ndim = (if es = [] then 1 else 2), rows = es\<rparr>"

text \<open>\<open>t[:k, :]\<close>: two indices need two dimensions, otherwise \<open>IndexError\<close>.\<close>

definition index_rows :: "edge_tensor \<Rightarrow> int \<Rightarrow> error + edge_tensor" where
  "index_rows t k =
     (if ndim t < 2 then Inl IndexError else Inr (t\<lparr>rows := slice_to k (rows t)\<rparr>))"

text \<open>\<open>t.t().contiguous()\<close> of a tensor of shape \<open>(E, 2)\<close>: the \<open>2 \<times> E\<close> matrix of sources and
  destinations.\<close>

definition t_contiguous :: "edge_tensor \<Rightarrow> int matrix" where
  "t_contiguous t = [map fst (rows t), map snd (rows t)]"

text \<open>\<open>m.T\<close> of a matrix given by its rows, all of the length of the first.\<close>

definition transpose_mat :: "'a matrix \<Rightarrow> 'a matrix" where
  "transpose_mat m =
     (case m of [] \<Rightarrow> [] | r # _ \<Rightarrow> map (\<lambda>j. map (\<lambda>row. row ! j) m) [0..<length r])"

text \<open>\<open>np.eye(n)\<close> and \<open>np.tile(m, (1, reps))\<close>.\<close>

definition eye :: "nat \<Rightarrow> real matrix" where
  "eye n = map (\<lambda>i. map (\<lambda>j. if i = j then 1 else 0) [0..<n]) [0..<n]"

definition tile_cols :: "'a matrix \<Rightarrow> nat \<Rightarrow> 'a matrix" where
  "tile_cols m reps = map (\<lambda>row. concat (replicate reps row)) m"

text \<open>The one-hot vector of length \<open>n\<close> with its \<open>1\<close> at position \<open>k\<close>.\<close>

definition one_hot :: "nat \<Rightarrow> nat \<Rightarrow> real list" where
  "one_hot n k = map (\<lambda>i. if i = k then 1 else 0) [0..<n]"

text \<open>
  A rank-3 tensor is a nested list; \<open>is_tensor3 d0 d1 d2 t\<close> says that it is rectangular of
  shape \<open>(d0, d1, d2)\<close>. \<open>shape0\<close> and \<open>shape1\<close> read \<open>t.shape[0]\<close> and \<open>t.shape[1]\<close>; the
  pose tensors of this program always have two channels, so \<open>shape1\<close> is read off the
  first channel.
\<close>

definition is_tensor3 :: "nat \<Rightarrow> nat \<Rightarrow> nat \<Rightarrow> 'a tensor3 \<Rightarrow> bool" where
  "is_tensor3 d0 d1 d2 t =
     (length t = d0 \<and> list_all (\<lambda>c. length c = d1 \<and> list_all (\<lambda>r. length r = d2) c) t)"

definition is_matrix :: "nat \<Rightarrow> nat \<Rightarrow> 'a matrix \<Rightarrow> bool" where
  "is_matrix d0 d1 m = (length m = d0 \<and> list_all (\<lambda>r. length r = d1) m)"

definition shape0 :: "'a tensor3 \<Rightarrow> nat" where
  "shape0 t = length t"

definition shape1 :: "'a tensor3 \<Rightarrow> nat" where
  "shape1 t = (case t of [] \<Rightarrow> 0 | c # _ \<Rightarrow> length c)"

text \<open>
  \<open>t.reshape(d0, -1)\<close>: the elements in row-major order, cut into \<open>d0\<close> rows of equal
  length. With \<open>d0 = 0\<close> the size \<open>-1\<close> stands for cannot be inferred and torch raises
  \<open>RuntimeError\<close>.
\<close>

definition flatten3 :: "'a tensor3 \<Rightarrow> 'a list" where
  "flatten3 t = concat (map concat t)"

definition chunk :: "nat \<Rightarrow> nat \<Rightarrow> 'a list \<Rightarrow> 'a matrix" where
  "chunk d0 w xs = map (\<lambda>i. take w (drop (i * w) xs)) [0..<d0]"

definition reshape2 :: "nat \<Rightarrow> 'a tensor3 \<Rightarrow> error + 'a matrix" where
  "reshape2 d0 t =
     (if d0 = 0 then Inl RuntimeError
      else Inr (chunk d0 (length (flatten3 t) div d0) (flatten3 t)))"

text \<open>\<open>m.reshape(d0, d1, d2)\<close> of a matrix: the same row-major elements in the new shape.\<close>

definition reshape3 :: "nat \<Rightarrow> nat \<Rightarrow> nat \<Rightarrow> 'a matrix \<Rightarrow> 'a tensor3" where
  "reshape3 d0 d1 d2 m = map (chunk d1 d2) (chunk d0 (d1 * d2) (concat m))"

section \<open>The records of the program\<close>

text \<open>The command-line arguments the code reads (\<open>args.n_nodes\<close> and so on).\<close>

record args =
  n_nodes :: int
  scale_norm :: bool
  args_downsample :: bool
  args_batch_size :: int
  temporal_configuration :: string

text \<open>The fields of an \<open>ISRDataReader\<close> that the graph construction reads.\<close>

record ISRDataReader =
  reader_N_NODES :: int
  set_scalenorm :: bool
  downsample :: bool
  max_frames :: nat

text \<open>One entry of \<open>data_dict\<close>, made by \<open>_load_pose_data\<close>.\<close>

record video =
  label :: nat
  gloss :: string
  node_pos :: "real tensor3"
  split :: string
  view :: int

text \<open>One entry of \<open>graph_dict\<close>, made by \<open>_build_spatio_temporal_graph\<close>.\<close>

record graph =
  g_label :: nat
  g_gloss :: string
  g_x :: "real matrix"
  g_n_frames :: nat
  g_node_pos :: "real matrix"
  g_edges :: "int matrix"
  g_split :: string
  g_view :: int

section \<open>\<open>SpatioTemporalGraphBuilder\<close>\<close>

record builder =
  max_n_frames :: nat
  N_NODES :: int
  tot_number_nodes :: int
  inward_edges :: "edge list"
  n_spatial_edges :: nat
  n_temporal_edges :: int
  spatial_edges :: edge_tensor
  temporal_edges :: edge_tensor
  landmark_features :: "real matrix"

definition default_inward_edges :: "edge list" where
  "default_inward_edges =
     [(2, 0), (1, 0), (0, 3), (0, 4), (3, 5), (4, 6), (5, 7), (6, 17),
      (7, 8), (7, 9), (9, 10), (7, 11), (11, 12), (7, 13), (13, 14),
      (7, 15), (15, 16), (17, 18), (17, 19), (19, 20), (17, 21), (21, 22),
      (17, 23), (23, 24), (17, 25), (25, 26)]"

text \<open>
  \<open>_build_spatiotemporal_edges\<close>, the two Python lists it fills before they are made
  tensors: the outer loop runs over the frames, the inner one over the inward edges
  (spatial) or the nodes (temporal).
\<close>

definition spatial_edge_list :: "nat \<Rightarrow> int \<Rightarrow> edge list \<Rightarrow> edge list" where
  "spatial_edge_list F N E =
     concat (map (\<lambda>frame. map (\<lambda>edge. (frame * N + fst edge, frame * N + snd edge)) E)
                 (range_py (int F)))"

definition temporal_edge_list :: "nat \<Rightarrow> int \<Rightarrow> edge list" where
  "temporal_edge_list F N =
     concat (map (\<lambda>frame. map (\<lambda>node. (frame * N + node, (frame + 1) * N + node)) (range_py N))
                 (range_py (int F - 1)))"

text \<open>\<open>_build_node_features\<close>: \<open>np.eye\<close> raises \<open>ValueError\<close> on a negative size.\<close>

definition build_node_features :: "nat \<Rightarrow> int \<Rightarrow> error + real matrix" where
  "build_node_features F N =
     (if N < 0 then Inl ValueError else Inr (tile_cols (eye (nat N)) F))"

text \<open>
  \<open>SpatioTemporalGraphBuilder.__init__\<close> with \<open>inward_edges = None\<close>, as the reader calls it.
\<close>

definition builder_init :: "(string, video) dict \<Rightarrow> args \<Rightarrow> error + builder" where
  "builder_init data_dict a =
     (case max_py (map (\<lambda>item. shape1 (node_pos (snd item))) data_dict) of
        Inl e \<Rightarrow> Inl e
      | Inr F \<Rightarrow>
          (case build_node_features F (n_nodes a) of
             Inl e \<Rightarrow> Inl e
           | Inr feats \<Rightarrow>
               Inr \<lparr>max_n_frames = F,
                    N_NODES = n_nodes a,
                    tot_number_nodes = int F * n_nodes a,
                    inward_edges = default_inward_edges,
                    n_spatial_edges = length default_inward_edges,
                    n_temporal_edges = n_nodes a,
                    spatial_edges = torch_tensor (spatial_edge_list F (n_nodes a) default_inward_edges),
                    temporal_edges = torch_tensor (temporal_edge_list F (n_nodes a)),
                    landmark_features = feats\<rparr>))"

text \<open>\<open>reshape_nodes\<close>: \<open>pos_data.reshape(pos_data.shape[0], -1)\<close>.\<close>

definition reshape_nodes :: "'a tensor3 \<Rightarrow> error + 'a matrix" where
  "reshape_nodes pos_data = reshape2 (shape0 pos_data) pos_data"

section \<open>\<open>ISRDataReader\<close>\<close>

text \<open>\<open>ISRDataReader.__init__\<close>, the fields it sets from \<open>args\<close>; the cap is the constant 300.\<close>

definition reader_init :: "args \<Rightarrow> ISRDataReader" where
  "reader_init a =
     \<lparr>reader_N_NODES = n_nodes a, set_scalenorm = scale_norm a,
      downsample = args_downsample a, max_frames = 300\<rparr>"

subsection \<open>Loading and pre-processing\<close>

text \<open>
  The annotation metadata after \<open>_load_metadata\<close>: \<open>gloss_dict\<close> maps a gloss to its list of
  \<open>(video_id, split, camera_view)\<close>. The keypoint store maps a video id to the
  \<open>keypoints\<close> array of its pickle file (frames \<times> landmarks \<times> coordinates, at least two
  coordinates per landmark); an id outside its domain has no file, so
  \<open>os.path.exists\<close> is false for it.
\<close>

type_synonym video_instance = "string \<times> string \<times> int"
type_synonym store = "string \<rightharpoonup> real tensor3"

definition pose_indexes :: "nat list" where
  "pose_indexes = [0, 2, 5, 11, 12, 13, 14, 33, 37, 38, 41, 42, 45, 46, 49, 50, 53, 54,
                   58, 59, 62, 63, 66, 67, 70, 71, 74]"

text \<open>\<open>kps[:, :, :2]\<close> and \<open>permute(2, 0, 1)\<close>: from frames \<times> landmarks \<times> 2 to 2 \<times> frames \<times> landmarks.\<close>

definition first_two_coords :: "real tensor3 \<Rightarrow> real tensor3" where
  "first_two_coords kps = map (map (take 2)) kps"

definition permute_201 :: "real tensor3 \<Rightarrow> real tensor3" where
  "permute_201 kps = map (\<lambda>c. map (\<lambda>fr. map (\<lambda>lm. lm ! c) fr) kps) [0..<2]"

text \<open>\<open>pose_select\<close>: \<open>frames[:, :, pose_indexes]\<close>; an index beyond the landmarks raises.\<close>

definition pose_select :: "real tensor3 \<Rightarrow> error + real tensor3" where
  "pose_select frames =
     (if list_all (list_all (\<lambda>fr. list_all (\<lambda>i. i < length fr) pose_indexes)) frames
      then Inr (map (map (\<lambda>fr. map (\<lambda>i. fr ! i) pose_indexes)) frames)
      else Inl IndexError)"

text \<open>\<open>downsample_frames\<close> with its default rate: \<open>frames[:, ::3, :]\<close>.\<close>

definition downsample_frames :: "real tensor3 \<Rightarrow> real tensor3" where
  "downsample_frames frames = map (slice_step 3) frames"

text \<open>
  \<open>_transform_data\<close>. \<open>CenterAndScaleNormalize\<close> lives in another module; it is the
  parameter \<open>scalenorm\<close> here.
\<close>

definition transform_data ::
  "ISRDataReader \<Rightarrow> (real tensor3 \<Rightarrow> real tensor3) \<Rightarrow> real tensor3 \<Rightarrow> error + real tensor3" where
  "transform_data self scalenorm kps =
     (case pose_select (permute_201 kps) of
        Inl e \<Rightarrow> Inl e
      | Inr frames \<Rightarrow>
          (let frames1 = (if downsample self then downsample_frames frames else frames);
               frames2 = (if set_scalenorm self then scalenorm frames1 else frames1)
           in Inr frames2))"

text \<open>\<open>labels = {word: index for index, word in enumerate(self.gloss_dict.keys())}\<close>.\<close>

definition labels_of :: "(string, video_instance list) dict \<Rightarrow> (string \<rightharpoonup> nat)" where
  "labels_of gloss_dict =
     fold (\<lambda>(index, word) m. m(word \<mapsto> index))
          (zip [0..<length gloss_dict] (map fst gloss_dict)) Map.empty"

text \<open>
  The dictionary comprehension of \<open>_load_pose_data\<close>: the two \<open>for\<close> clauses in order,
  the \<open>if os.path.exists\<close> filter before the value is computed, and a repeated key
  overwriting the earlier value.
\<close>

definition instances_of :: "(string, video_instance list) dict \<Rightarrow> (string \<times> video_instance) list" where
  "instances_of gloss_dict =
     concat (map (\<lambda>(gloss, metadata). map (\<lambda>inst. (gloss, inst)) metadata) gloss_dict)"

fun load_loop ::
  "ISRDataReader \<Rightarrow> (real tensor3 \<Rightarrow> real tensor3) \<Rightarrow> store \<Rightarrow> (string \<rightharpoonup> nat) \<Rightarrow>
   (string, video) dict \<Rightarrow> (string \<times> video_instance) list \<Rightarrow> error + (string, video) dict" where
  "load_loop self scalenorm st labels acc [] = Inr acc"
| "load_loop self scalenorm st labels acc ((gl, vid_id, sp, vw) # rest) =
     (case st vid_id of
        None \<Rightarrow> load_loop self scalenorm st labels acc rest
      | Some kps \<Rightarrow>
          (case labels gl of
             None \<Rightarrow> Inl KeyError
           | Some l \<Rightarrow>
               (case transform_data self scalenorm (first_two_coords kps) of
                  Inl e \<Rightarrow> Inl e
                | Inr pos \<Rightarrow>
                    load_loop self scalenorm st labels
                      (AList.update vid_id
                         \<lparr>label = l, gloss = gl, node_pos = pos, split = sp, view = vw\<rparr> acc)
                      rest)))"

definition load_pose_data ::
  "ISRDataReader \<Rightarrow> (real tensor3 \<Rightarrow> real tensor3) \<Rightarrow> store \<Rightarrow>
   (string, video_instance list) dict \<Rightarrow> error + (string, video) dict" where
  "load_pose_data self scalenorm st gloss_dict =
     load_loop self scalenorm st (labels_of gloss_dict) [] (instances_of gloss_dict)"

subsection \<open>Graph construction\<close>

text \<open>
  Lines 140 to 150 of \<open>_build_spatio_temporal_graph\<close>: the two branches on
  \<open>n_frames < self.max_frames\<close>, each slicing the template's spatial and temporal edge
  tensors by rows and transposing them.
\<close>

definition slice_edges ::
  "ISRDataReader \<Rightarrow> builder \<Rightarrow> nat \<Rightarrow> error + (int matrix \<times> int matrix)" where
  "slice_edges self gc n =
     (if n < max_frames self then
        (case index_rows (spatial_edges gc) (int (n * n_spatial_edges gc)) of
           Inl e \<Rightarrow> Inl e
         | Inr s \<Rightarrow>
             (case index_rows (temporal_edges gc) ((int n - 1) * n_temporal_edges gc) of
                Inl e \<Rightarrow> Inl e
              | Inr t \<Rightarrow> Inr (t_contiguous s, t_contiguous t)))
      else
        (case index_rows (spatial_edges gc) (int (max_frames self * n_spatial_edges gc)) of
           Inl e \<Rightarrow> Inl e
         | Inr s \<Rightarrow>
             (case index_rows (temporal_edges gc)
                     ((int (max_frames self) - 1) * n_temporal_edges gc) of
                Inl e \<Rightarrow> Inl e
              | Inr t \<Rightarrow> Inr (t_contiguous s, t_contiguous t))))"

text \<open>
  The body of the loop over \<open>data_dict.items()\<close>: the record stored under the video id.
  The temporal slice is computed and then not used: the record's \<open>edges\<close> are the spatial
  slice. The loop also keeps the largest frame count seen in \<open>max_frames_count\<close>, which
  nothing reads.
\<close>

definition build_graph_record :: "ISRDataReader \<Rightarrow> builder \<Rightarrow> video \<Rightarrow> error + graph" where
  "build_graph_record self gc data =
     (let n = shape1 (node_pos data);
          end_idx = int n * reader_N_NODES self
      in case slice_edges self gc n of
           Inl e \<Rightarrow> Inl e
         | Inr (spatial, temporal) \<Rightarrow>
             (let x = transpose_mat (map (slice_to end_idx) (landmark_features gc))
              in case reshape_nodes (node_pos data) of
                   Inl e \<Rightarrow> Inl e
                 | Inr pos \<Rightarrow>
                     Inr \<lparr>g_label = label data,
                          g_gloss = gloss data,
                          g_x = x,
                          g_n_frames = shape1 (node_pos data),
                          g_node_pos = pos,
                          g_edges = spatial,
                          g_split = split data,
                          g_view = view data\<rparr>))"

fun graph_loop ::
  "ISRDataReader \<Rightarrow> builder \<Rightarrow> (string, graph) dict \<Rightarrow> (string, video) dict \<Rightarrow>
   error + (string, graph) dict" where
  "graph_loop self gc graph_dict [] = Inr graph_dict"
| "graph_loop self gc graph_dict ((vid_id, data) # rest) =
     (case build_graph_record self gc data of
        Inl e \<Rightarrow> Inl e
      | Inr g \<Rightarrow> graph_loop self gc (AList.update vid_id g graph_dict) rest)"

definition build_spatio_temporal_graph ::
  "ISRDataReader \<Rightarrow> args \<Rightarrow> (string, video) dict \<Rightarrow> error + (string, graph) dict" where
  "build_spatio_temporal_graph self a data_dict =
     (case builder_init data_dict a of
        Inl e \<Rightarrow> Inl e
      | Inr gc \<Rightarrow> graph_loop self gc [] data_dict)"

section \<open>\<open>ISRDataLoader\<close>\<close>

text \<open>A \<open>torch_geometric\<close> \<open>Data\<close> object and a \<open>DataLoader\<close>, as the values handed to them.\<close>

record Data =
  d_pos :: "real matrix"
  d_x :: "real matrix"
  d_edge_index :: "int matrix"
  d_y :: nat
  d_n_frames :: nat
  d_view :: int

record DataLoader =
  dataset :: "Data list"
  batch_size :: int
  shuffle :: bool

text \<open>
  \<open>ISRDataLoader.__init__\<close> assigns \<open>self.edge_index\<close> only in the \<open>per_frame\<close> mode, so the
  attribute is optional.
\<close>

definition loader_init_edge_index :: "args \<Rightarrow> int matrix option" where
  "loader_init_edge_index a =
     (if temporal_configuration a = ''per_frame''
      then Some (t_contiguous (torch_tensor default_inward_edges)) else None)"

text \<open>\<open>_split_dataset\<close>.\<close>

definition split_dataset ::
  "(string, graph) dict \<Rightarrow>
   (string, graph) dict \<times> (string, graph) dict \<times> (string, graph) dict list" where
  "split_dataset data_dict =
     (let train_data = filter (\<lambda>(k, v). g_split v = ''train'') data_dict;
          val_data = filter (\<lambda>(k, v). g_split v = ''val'') data_dict;
          test_data_v0 = filter (\<lambda>(k, v). g_split v = ''test'' \<and> g_view v = 0) data_dict;
          test_data_v1 = filter (\<lambda>(k, v). g_split v = ''test'' \<and> g_view v = 1) data_dict;
          test_data_v2 = filter (\<lambda>(k, v). g_split v = ''test'' \<and> g_view v = 2) data_dict
      in (train_data, val_data, [test_data_v0, test_data_v1, test_data_v2]))"

text \<open>
  The loop of \<open>_load_data\<close>; \<open>make_data\<close> is the \<open>Data(...)\<close> it appends, with
  \<open>pos = data['node_pos'].T\<close>. It assigns \<open>self.edge_index\<close> in the \<open>spatio_temporal\<close> mode, so
  the attribute is passed in and returned; reading it unassigned raises
  \<open>AttributeError\<close>.
\<close>

definition make_data :: "int matrix \<Rightarrow> graph \<Rightarrow> Data" where
  "make_data e data =
     \<lparr>d_pos = transpose_mat (g_node_pos data), d_x = g_x data, d_edge_index = e,
      d_y = g_label data, d_n_frames = g_n_frames data, d_view = g_view data\<rparr>"

fun load_data_loop ::
  "args \<Rightarrow> int matrix option \<Rightarrow> (string, graph) dict \<Rightarrow>
   error + (Data list \<times> int matrix option)" where
  "load_data_loop a ei [] = Inr ([], ei)"
| "load_data_loop a ei ((vid_id, data) # rest) =
     (let ei1 = (if temporal_configuration a = ''spatio_temporal''
                 then Some (g_edges data) else ei)
      in case ei1 of
           None \<Rightarrow> Inl AttributeError
         | Some e \<Rightarrow>
             (case load_data_loop a ei1 rest of
                Inl err \<Rightarrow> Inl err
              | Inr (data_list, ei2) \<Rightarrow> Inr (make_data e data # data_list, ei2)))"

text \<open>
  \<open>_load_data\<close>: the loop, then \<open>DataLoader(data_list, batch_size, shuffle)\<close>. With
  \<open>shuffle=True\<close> the loader draws from a \<open>RandomSampler\<close>, which raises \<open>ValueError\<close> over an
  empty list; a batch size that is not positive raises \<open>ValueError\<close> as well.
\<close>

definition load_data ::
  "args \<Rightarrow> int matrix option \<Rightarrow> (string, graph) dict \<Rightarrow> bool \<Rightarrow>
   error + (DataLoader \<times> int matrix option)" where
  "load_data a ei data_dict shuf =
     (case load_data_loop a ei data_dict of
        Inl e \<Rightarrow> Inl e
      | Inr (data_list, ei1) \<Rightarrow>
          (if (shuf \<and> data_list = []) \<or> args_batch_size a \<le> 0 then Inl ValueError
           else Inr (\<lparr>dataset = data_list, batch_size = args_batch_size a, shuffle = shuf\<rparr>,
                     ei1)))"

text \<open>
  \<open>build_loaders\<close>: the train loader, the validation loader and the list of three test
  loaders, each of the three built from \<open>test_data[0]\<close>.
\<close>

definition build_loaders ::
  "args \<Rightarrow> (string, graph) dict \<Rightarrow> error + (DataLoader \<times> DataLoader \<times> DataLoader list)" where
  "build_loaders a data_dict =
     (case split_dataset data_dict of (train_data, val_data, test_data) \<Rightarrow>
        (case load_data a (loader_init_edge_index a) train_data True of
           Inl e \<Rightarrow> Inl e
         | Inr (train_loader, ei1) \<Rightarrow>
        (case load_data a ei1 val_data False of
           Inl e \<Rightarrow> Inl e
         | Inr (val_loader, ei2) \<Rightarrow>
        (case load_data a ei2 (test_data ! 0) False of
           Inl e \<Rightarrow> Inl e
         | Inr (t0, ei3) \<Rightarrow>
        (case load_data a ei3 (test_data ! 0) False of
           Inl e \<Rightarrow> Inl e
         | Inr (t1, ei4) \<Rightarrow>
        (case load_data a ei4 (test_data ! 0) False of
           Inl e \<Rightarrow> Inl e
         | Inr (t2, ei5) \<Rightarrow> Inr (train_loader, val_loader, [t0, t1, t2])))))))"

section \<open>Example inputs\<close>

text \<open>
  The arguments at the defaults of the command line (27 nodes, batch size 5, the
  \<open>spatio_temporal\<close> mode), a pose tensor of shape \<open>(2, n, 27)\<close> and a video around it.
\<close>

definition default_args :: args where
  "default_args =
     \<lparr>n_nodes = 27, scale_norm = False, args_downsample = False, args_batch_size = 5,
      temporal_configuration = ''spatio_temporal''\<rparr>"

definition zero_pose :: "nat \<Rightarrow> real tensor3" where
  "zero_pose n = replicate 2 (replicate n (replicate 27 0))"

definition video_of :: "nat \<Rightarrow> string \<Rightarrow> int \<Rightarrow> video" where
  "video_of n sp vw = \<lparr>label = 0, gloss = ''sign'', node_pos = zero_pose n, split = sp, view = vw\<rparr>"

definition small_pose :: "real tensor3" where
  "small_pose = [[[1, 2], [3, 4], [5, 6]], [[7, 8], [9, 10], [11, 12]]]"


definition one_video :: "nat \<Rightarrow> (string, video) dict" where
  "one_video n = [(''a'', video_of n ''train'' 0)]"

definition two_videos :: "(string, video) dict" where
  "two_videos = [(''a'', video_of 0 ''train'' 0), (''b'', video_of 3 ''train'' 0)]"




text \<open>
  The metadata without a given video: what \<open>gloss_dict\<close> would be, had the video not been
  listed.
\<close>

definition drop_video ::
  "string \<Rightarrow> (string, video_instance list) dict \<Rightarrow> (string, video_instance list) dict" where
  "drop_video vid_id gloss_dict =
     map (\<lambda>(gl, metadata). (gl, filter (\<lambda>inst. fst inst \<noteq> vid_id) metadata)) gloss_dict"

text \<open>
  A metadata of one gloss listing two videos, and a keypoint store that has the first
  only: two frames of 75 landmarks with three coordinates each.
\<close>

definition example_gloss_dict :: "(string, video_instance list) dict" where
  "example_gloss_dict = [(''sign'', [(''a'', ''train'', 0), (''missing'', ''train'', 0)])]"

definition example_store :: store where
  "example_store = [''a'' \<mapsto> replicate 2 (replicate 75 [0, 0, 0])]"

section \<open>The topology template\<close>

lemma length_spatial_edge_list: "length (spatial_edge_list F N E) = F * length E"
  by (simp add: spatial_edge_list_def range_py_def length_concat comp_def sum_list_triv)

lemma length_temporal_edge_list: "length (temporal_edge_list F N) = (F - 1) * nat N"
proof -
  have "nat (int F - 1) = F - 1" by simp
  then show ?thesis
    by (simp add: temporal_edge_list_def range_py_def length_concat comp_def sum_list_triv)
qed

lemma upt_split: "f \<le> F \<Longrightarrow> [0..<F] = [0..<f] @ [f..<F]"
  by (metis le0 upt_add_eq_append le_add_diff_inverse)

lemma spatial_edge_list_prefix:
  assumes "f \<le> F"
  shows "take (f * length E) (spatial_edge_list F N E) = spatial_edge_list f N E"
proof -
  have "spatial_edge_list F N E = spatial_edge_list f N E @
        concat (map (\<lambda>frame. map (\<lambda>edge. (frame * N + fst edge, frame * N + snd edge)) E)
                    (map int [f..<F]))"
    using upt_split[OF assms] by (simp add: spatial_edge_list_def range_py_def)
  then show ?thesis
    using length_spatial_edge_list[of f N E] by simp
qed

lemma temporal_edge_list_prefix:
  assumes "f \<le> F"
  shows "take ((f - 1) * nat N) (temporal_edge_list F N) = temporal_edge_list f N"
proof -
  have le: "f - 1 \<le> F - 1" using assms by simp
  have n: "nat (int F - 1) = F - 1" "nat (int f - 1) = f - 1" by simp_all
  have "temporal_edge_list F N = temporal_edge_list f N @
        concat (map (\<lambda>frame. map (\<lambda>node. (frame * N + node, (frame + 1) * N + node)) (range_py N))
                    (map int [f - 1..<F - 1]))"
    using upt_split[OF le] by (simp add: temporal_edge_list_def range_py_def n)
  then show ?thesis
    using length_temporal_edge_list[of f N] by simp
qed

lemma slice_to_nonneg: "0 \<le> k \<Longrightarrow> slice_to k xs = take (nat k) xs"
  by (simp add: slice_to_def)

lemma slice_to_int: "slice_to (int k) xs = take k xs"
  unfolding slice_to_def by (simp only: of_nat_0_le_iff if_True nat_int)

lemma slice_to_Nil: "slice_to k [] = []"
  by (simp add: slice_to_def)

lemma temporal_edge_list_neg: "N \<le> 0 \<Longrightarrow> temporal_edge_list F N = []"
  by (simp add: temporal_edge_list_def range_py_def)

lemma temporal_slice:
  assumes "1 \<le> f" "f \<le> F"
  shows "slice_to ((int f - 1) * N) (temporal_edge_list F N) = temporal_edge_list f N"
proof (cases "0 \<le> N")
  case True
  have "nat (int f - 1) = f - 1" by simp
  moreover have "0 \<le> int f - 1" using assms by simp
  ultimately have "nat ((int f - 1) * N) = (f - 1) * nat N"
    using True by (simp add: nat_mult_distrib)
  moreover have "0 \<le> (int f - 1) * N" using assms True by simp
  ultimately show ?thesis
    using temporal_edge_list_prefix[OF assms(2), of N] by (simp add: slice_to_nonneg)
next
  case False
  then show ?thesis by (simp add: temporal_edge_list_neg slice_to_Nil)
qed

text \<open>
  C1. For every frame count \<open>f\<close> with \<open>1 \<le> f \<le> F\<close>, the first \<open>f * |E|\<close> rows of the spatial
  edge list and the first \<open>(f - 1) * N\<close> rows of the temporal edge list built for \<open>F\<close> frames
  are the spatial and temporal edge lists built directly for \<open>f\<close> frames. The slices are
  the ones the assembly takes: \<open>[:f * n_spatial_edges]\<close> and \<open>[:(f - 1) * n_temporal_edges]\<close>.
\<close>

theorem truncation_equivalence:
  assumes "1 \<le> f" "f \<le> F"
  shows "slice_to (int (f * length E)) (spatial_edge_list F N E) = spatial_edge_list f N E \<and>
         slice_to ((int f - 1) * N) (temporal_edge_list F N) = temporal_edge_list f N"
proof -
  have "slice_to (int (f * length E)) (spatial_edge_list F N E) =
        take (f * length E) (spatial_edge_list F N E)"
    by (rule slice_to_int)
  then show ?thesis
    using spatial_edge_list_prefix[OF assms(2)] temporal_slice[OF assms] by simp
qed

theorem truncation_equivalence_witness:
  "(1::nat) \<le> 2 \<and> (2::nat) \<le> 4 \<and>
   slice_to (int (2 * length [(1, 0), (2, 1::int)])) (spatial_edge_list 4 3 [(1, 0), (2, 1)])
     = [(1, 0), (2, 1), (4, 3), (5, 4)] \<and>
   slice_to ((int 2 - 1) * 3) (temporal_edge_list 4 3) = [(0, 3), (1, 4), (2, 5)]"
proof -
  have a: "spatial_edge_list 2 3 [(1, 0), (2, 1)] = [(1, 0), (2, 1), (4, 3), (5, 4)]"
    by (simp add: spatial_edge_list_def range_py_def upt_conv_Cons)
  have b: "temporal_edge_list 2 3 = [(0, 3), (1, 4), (2, 5)]"
    by (simp add: temporal_edge_list_def range_py_def upt_conv_Cons)
  show ?thesis
    using truncation_equivalence[of 2 4 "[(1, 0), (2, 1)]" 3] a b by simp
qed

section \<open>Role features\<close>

lemma concat_replicate_nth:
  "length r = N \<Longrightarrow> n < N \<Longrightarrow> f < F \<Longrightarrow> concat (replicate F r) ! (f * N + n) = r ! n"
proof (induction F arbitrary: f)
  case 0
  then show ?case by simp
next
  case (Suc F)
  show ?case
  proof (cases f)
    case 0
    with Suc.prems show ?thesis by (simp add: nth_append)
  next
    case (Suc f')
    with Suc.prems have "f' < F" by simp
    from Suc.IH[OF Suc.prems(1) Suc.prems(2) this] Suc Suc.prems(1)
    show ?thesis by (simp add: nth_append)
  qed
qed

lemma length_concat_replicate: "length (concat (replicate F r)) = F * length r"
  by (induction F) simp_all

lemma tile_eye_column:
  assumes "n < N" "f < F"
  shows "map (\<lambda>row. row ! (f * N + n)) (tile_cols (eye N) F) = one_hot N n"
proof -
  have "\<And>i. i < N \<Longrightarrow>
          concat (replicate F (map (\<lambda>j. if i = j then 1 else (0::real)) [0..<N])) ! (f * N + n)
          = (if i = n then 1 else 0)"
    using assms by (subst concat_replicate_nth[where N = N]) simp_all
  then show ?thesis
    by (simp add: tile_cols_def eye_def one_hot_def comp_def)
qed

lemma is_matrix_tile_eye: "is_matrix N (F * N) (tile_cols (eye N) F)"
  by (simp add: is_matrix_def tile_cols_def eye_def list_all_iff length_concat_replicate)

section \<open>Node positions\<close>

lemma chunk_Suc: "chunk (Suc n) w xs = take w xs # chunk n w (drop w xs)"
proof -
  have "[0..<Suc n] = 0 # map Suc [0..<n]"
    by (simp add: upt_conv_Cons map_Suc_upt del: upt_Suc)
  then show ?thesis
    by (simp add: chunk_def comp_def add.commute del: upt_Suc)
qed

lemma chunk_0: "chunk 0 w xs = []"
  by (simp add: chunk_def)

lemma chunk_concat:
  "list_all (\<lambda>b. length b = w) bs \<Longrightarrow> chunk (length bs) w (concat bs) = bs"
  by (induction bs) (simp_all add: chunk_0 chunk_Suc)

lemma length_concat_uniform:
  "list_all (\<lambda>b. length b = w) bs \<Longrightarrow> length (concat bs) = length bs * w"
  by (induction bs) simp_all

lemma concat_uniform_nth:
  "list_all (\<lambda>b. length b = w) bs \<Longrightarrow> i < length bs \<Longrightarrow> j < w \<Longrightarrow>
   concat bs ! (i * w + j) = bs ! i ! j"
proof (induction bs arbitrary: i)
  case Nil
  then show ?case by simp
next
  case (Cons b bs)
  then show ?case by (cases i) (simp_all add: nth_append)
qed

lemma tensor3_channels:
  "is_tensor3 d0 d1 d2 t \<Longrightarrow> list_all (\<lambda>c. length (concat c) = d1 * d2) t"
  by (auto simp: is_tensor3_def list_all_iff dest!: length_concat_uniform[unfolded list_all_iff])

lemma reshape_nodes_eq:
  assumes "is_tensor3 d0 d1 d2 t" "0 < d0"
  shows "reshape_nodes t = Inr (map concat t)"
proof -
  have len: "length t = d0" using assms(1) by (simp add: is_tensor3_def)
  have u: "list_all (\<lambda>b. length b = d1 * d2) (map concat t)"
    using tensor3_channels[OF assms(1)] by (simp add: list_all_iff)
  have "length (flatten3 t) = d0 * (d1 * d2)"
    using length_concat_uniform[OF u] len by (simp add: flatten3_def)
  then have w: "length (flatten3 t) div d0 = d1 * d2"
    using assms(2) by simp
  have "chunk d0 (d1 * d2) (flatten3 t) = map concat t"
    using chunk_concat[OF u] len by (simp add: flatten3_def)
  then show ?thesis
    using assms(2) len w by (simp add: reshape_nodes_def reshape2_def shape0_def)
qed

lemma is_matrix_map_concat:
  assumes "is_tensor3 d0 d1 d2 t"
  shows "is_matrix d0 (d1 * d2) (map concat t)"
  using tensor3_channels[OF assms] assms by (simp add: is_matrix_def is_tensor3_def list_all_iff)

lemma reshape3_roundtrip:
  assumes "is_tensor3 d0 d1 d2 t"
  shows "reshape3 d0 d1 d2 (map concat t) = t"
proof -
  have len: "length t = d0" using assms(1) by (simp add: is_tensor3_def)
  have u: "list_all (\<lambda>b. length b = d1 * d2) (map concat t)"
    using tensor3_channels[OF assms(1)] by (simp add: list_all_iff)
  have a: "chunk d0 (d1 * d2) (concat (map concat t)) = map concat t"
    using chunk_concat[OF u] len by simp
  have "chunk d1 d2 (concat c) = c" if "c \<in> set t" for c
  proof -
    have "length c = d1" "list_all (\<lambda>r. length r = d2) c"
      using assms that by (auto simp: is_tensor3_def list_all_iff)
    then show ?thesis using chunk_concat[of d2 c] by simp
  qed
  then have "map (chunk d1 d2) (map concat t) = t"
    by (simp add: map_idI)
  then show ?thesis by (simp add: reshape3_def a)
qed

lemma map_concat_nth:
  assumes "is_tensor3 d0 d1 d2 t" "c < d0" "f < d1" "n < d2"
  shows "map concat t ! c ! (f * d2 + n) = t ! c ! f ! n"
proof -
  have "list_all (\<lambda>r. length r = d2) (t ! c)" "length (t ! c) = d1" "c < length t"
    using assms by (auto simp: is_tensor3_def list_all_iff)
  then show ?thesis using assms concat_uniform_nth by fastforce
qed

lemma small_pose_tensor: "is_tensor3 2 3 2 small_pose"
  by (simp add: is_tensor3_def small_pose_def)

text \<open>
  C5, as the claim states it, fails: a pose tensor of shape \<open>(2, 3, 2)\<close> is flattened to
  shape \<open>(2, 6)\<close>, one row per coordinate channel, and not to the shape \<open>(3, 4)\<close> of one row
  per frame with x and y interleaved.
\<close>

theorem reshape_nodes_frame_major_counterexample:
  "reshape_nodes small_pose = Inr [[1, 2, 3, 4, 5, 6], [7, 8, 9, 10, 11, 12]] \<and>
   \<not> is_matrix 3 (2 * 2) [[1, 2, 3, 4, 5, 6], [7, 8, 9, 10, 11, 12 :: real]] \<and>
   reshape_nodes small_pose \<noteq> Inr [[1, 7, 2, 8], [3, 9, 4, 10], [5, 11, 6, 12]]"
  using reshape_nodes_eq[OF small_pose_tensor]
  by (simp add: small_pose_def is_matrix_def)

text \<open>
  C5, amended. \<open>reshape_nodes\<close> flattens a pose tensor of shape \<open>(2, F, N)\<close> to shape
  \<open>(2, F * N)\<close>: row \<open>c\<close> holds the coordinates of channel \<open>c\<close>, frame by frame and node by
  node within a frame, so entry \<open>(c, f * N + n)\<close> is entry \<open>(c, f, n)\<close> of the tensor.
  Reshaping the result back to \<open>(2, F, N)\<close> gives the tensor again.
\<close>

theorem reshape_nodes_channel_major:
  assumes "is_tensor3 2 F N t"
  shows "reshape_nodes t = Inr (map concat t) \<and>
         is_matrix 2 (F * N) (map concat t) \<and>
         (\<forall>c<2. \<forall>f<F. \<forall>n<N. map concat t ! c ! (f * N + n) = t ! c ! f ! n) \<and>
         reshape3 2 F N (map concat t) = t"
  using reshape_nodes_eq[OF assms] is_matrix_map_concat[OF assms] reshape3_roundtrip[OF assms]
    map_concat_nth[OF assms]
  by simp

theorem reshape_nodes_channel_major_witness:
  "is_tensor3 2 3 2 small_pose \<and>
   reshape_nodes small_pose = Inr [[1, 2, 3, 4, 5, 6], [7, 8, 9, 10, 11, 12]] \<and>
   reshape3 2 3 2 [[1, 2, 3, 4, 5, 6], [7, 8, 9, 10, 11, 12]] = small_pose"
  using reshape_nodes_channel_major[OF small_pose_tensor] small_pose_tensor
  by (simp add: small_pose_def)

section \<open>The builder and the assembly of one video\<close>

lemma fold_max_ge: "(y::nat) \<le> fold max ys y \<and> (\<forall>x\<in>set ys. x \<le> fold max ys y)"
proof (induction ys arbitrary: y)
  case Nil
  then show ?case by simp
next
  case (Cons z zs)
  from Cons.IH[of "max z y"] show ?case by auto
qed

lemma max_py_ge: "max_py xs = Inr F \<Longrightarrow> x \<in> set xs \<Longrightarrow> x \<le> F"
  using fold_max_ge by (cases xs) (auto simp: max_py_def)

lemma max_py_Inr: "xs \<noteq> [] \<Longrightarrow> \<exists>F. max_py xs = Inr F"
  by (cases xs) (simp_all add: max_py_def)

lemma builder_init_fields:
  assumes "builder_init dd a = Inr gc"
  shows "max_py (map (\<lambda>item. shape1 (node_pos (snd item))) dd) = Inr (max_n_frames gc)"
    and "0 \<le> n_nodes a"
    and "N_NODES gc = n_nodes a"
    and "n_spatial_edges gc = length default_inward_edges"
    and "n_temporal_edges gc = n_nodes a"
    and "spatial_edges gc =
           torch_tensor (spatial_edge_list (max_n_frames gc) (n_nodes a) default_inward_edges)"
    and "temporal_edges gc = torch_tensor (temporal_edge_list (max_n_frames gc) (n_nodes a))"
    and "landmark_features gc = tile_cols (eye (nat (n_nodes a))) (max_n_frames gc)"
  using assms
  by (auto simp: builder_init_def build_node_features_def split: sum.splits if_splits)

lemma builder_init_ok:
  assumes "dd \<noteq> []" "0 \<le> n_nodes a"
  shows "\<exists>gc. builder_init dd a = Inr gc"
proof -
  obtain F where "max_py (map (\<lambda>item. shape1 (node_pos (snd item))) dd) = Inr F"
    using max_py_Inr[of "map (\<lambda>item. shape1 (node_pos (snd item))) dd"] assms(1) by auto
  then show ?thesis
    using assms(2) by (simp add: builder_init_def build_node_features_def)
qed

lemma builder_frames_ge:
  assumes "builder_init dd a = Inr gc" "(vid, data) \<in> set dd"
  shows "shape1 (node_pos data) \<le> max_n_frames gc"
proof -
  have "shape1 (node_pos data) \<in> set (map (\<lambda>item. shape1 (node_pos (snd item))) dd)"
    using assms(2) by force
  then show ?thesis
    using max_py_ge[OF builder_init_fields(1)[OF assms(1)]] by blast
qed

lemma length_default_inward_edges: "length default_inward_edges = 26"
  by (simp add: default_inward_edges_def)

lemma index_rows_torch_tensor:
  "index_rows (torch_tensor es) k = (if es = [] then Inl IndexError
     else Inr \<lparr>ndim = 2, rows = slice_to k es\<rparr>)"
  by (simp add: index_rows_def torch_tensor_def)

lemma spatial_edge_list_Nil_iff: "spatial_edge_list F N E = [] \<longleftrightarrow> F = 0 \<or> E = []"
  using length_spatial_edge_list[of F N E] by (metis length_0_conv mult_is_0)

lemma temporal_edge_list_Nil_iff: "temporal_edge_list F N = [] \<longleftrightarrow> F \<le> 1 \<or> N \<le> 0"
proof -
  have "temporal_edge_list F N = [] \<longleftrightarrow> (F - 1) * nat N = 0"
    using length_temporal_edge_list[of F N] by (metis length_0_conv)
  then show ?thesis by auto
qed

lemma slice_edges_builder:
  assumes "builder_init dd a = Inr gc"
  shows "slice_edges self gc n =
     (if max_n_frames gc = 0 \<or> max_n_frames gc \<le> 1 \<or> n_nodes a \<le> 0 then Inl IndexError
      else Inr
        (let k = min n (max_frames self);
             s = slice_to (int (k * 26))
                   (spatial_edge_list (max_n_frames gc) (n_nodes a) default_inward_edges);
             t = slice_to ((int k - 1) * n_nodes a)
                   (temporal_edge_list (max_n_frames gc) (n_nodes a))
         in ([map fst s, map snd s], [map fst t, map snd t])))"
proof -
  have E: "default_inward_edges \<noteq> []" by (simp add: default_inward_edges_def)
  show ?thesis
    unfolding slice_edges_def builder_init_fields(4-7)[OF assms] index_rows_torch_tensor
      spatial_edge_list_Nil_iff temporal_edge_list_Nil_iff length_default_inward_edges
    using E by (auto simp: t_contiguous_def Let_def min_def)
qed

lemma take_concat_replicate:
  assumes "n \<le> F"
  shows "take (n * length r) (concat (replicate F r)) = concat (replicate n r)"
proof -
  have "replicate F r = replicate n r @ replicate (F - n) r"
    using assms by (simp add: replicate_add[symmetric])
  then have "concat (replicate F r) = concat (replicate n r) @ concat (replicate (F - n) r)"
    by (metis concat_append)
  then show ?thesis
    using length_concat_replicate[of n r] by simp
qed

lemma features_slice:
  assumes "n \<le> F" "0 \<le> N"
  shows "map (slice_to (int n * N)) (tile_cols (eye (nat N)) F) = tile_cols (eye (nat N)) n"
proof -
  have k: "0 \<le> int n * N" "nat (int n * N) = n * nat N"
    using assms(2) by (simp_all add: nat_mult_distrib)
  have "take (n * nat N) (concat (replicate F r)) = concat (replicate n r)"
    if "length r = nat N" for r :: "real list"
    using take_concat_replicate[OF assms(1), of r] that by simp
  then show ?thesis
    by (simp add: tile_cols_def eye_def slice_to_nonneg k comp_def)
qed

lemma eye_nth: "i < N \<Longrightarrow> eye N ! i = one_hot N i"
  by (auto simp add: eye_def one_hot_def)

lemma transpose_tile_eye: "transpose_mat (tile_cols (eye N) n) = concat (replicate n (eye N))"
proof (cases N)
  case 0
  then show ?thesis
    by (simp add: transpose_mat_def tile_cols_def eye_def)
next
  case (Suc N')
  have len0: "length (eye N) = N" by (simp add: eye_def)
  obtain r rs where m: "tile_cols (eye N) n = r # rs" and r: "length r = n * N"
    using Suc by (cases "tile_cols (eye N) n")
      (auto simp: tile_cols_def eye_def length_concat_replicate upt_conv_Cons simp del: upt_Suc)
  have T: "transpose_mat (tile_cols (eye N) n) =
           map (\<lambda>j. map (\<lambda>row. row ! j) (tile_cols (eye N) n)) [0..<n * N]"
    using m r by (simp add: transpose_mat_def)
  show ?thesis
  proof (rule nth_equalityI)
    show "length (transpose_mat (tile_cols (eye N) n)) = length (concat (replicate n (eye N)))"
      by (simp add: T length_concat_replicate len0)
  next
    fix j assume "j < length (transpose_mat (tile_cols (eye N) n))"
    then have j: "j < n * N" by (simp add: T)
    have N: "0 < N" using Suc by simp
    have d: "j div N < n" using j N by (simp add: less_mult_imp_div_less)
    have md: "j mod N < N" using N by simp
    have dec: "j = (j div N) * N + j mod N" by simp
    have "transpose_mat (tile_cols (eye N) n) ! j = map (\<lambda>row. row ! j) (tile_cols (eye N) n)"
      using j by (simp add: T)
    also have "\<dots> = map (\<lambda>row. row ! ((j div N) * N + j mod N)) (tile_cols (eye N) n)"
      by simp
    also have "\<dots> = one_hot N (j mod N)"
      by (rule tile_eye_column[OF md d])
    also have "\<dots> = eye N ! (j mod N)" using md by (simp add: eye_nth)
    also have "\<dots> = concat (replicate n (eye N)) ! ((j div N) * N + j mod N)"
      using concat_replicate_nth[OF len0 md d] by simp
    finally show "transpose_mat (tile_cols (eye N) n) ! j = concat (replicate n (eye N)) ! j"
      by simp
  qed
qed

lemma build_graph_record_fields:
  assumes "builder_init dd a = Inr gc" "build_graph_record self gc data = Inr g"
    and "reader_N_NODES self = n_nodes a" "shape1 (node_pos data) \<le> max_n_frames gc"
  shows "g_x g = concat (replicate (shape1 (node_pos data)) (eye (nat (n_nodes a))))"
    and "g_n_frames g = shape1 (node_pos data)"
    and "reshape_nodes (node_pos data) = Inr (g_node_pos g)"
    and "\<exists>t. slice_edges self gc (shape1 (node_pos data)) = Inr (g_edges g, t)"
    and "g_label g = label data \<and> g_gloss g = gloss data \<and> g_split g = split data \<and>
         g_view g = view data"
proof -
  have x: "transpose_mat (map (slice_to (int (shape1 (node_pos data)) * n_nodes a))
             (landmark_features gc)) =
           concat (replicate (shape1 (node_pos data)) (eye (nat (n_nodes a))))"
    using features_slice[OF assms(4) builder_init_fields(2)[OF assms(1)]]
    by (simp add: builder_init_fields(8)[OF assms(1)] transpose_tile_eye)
  from assms(2) x show
    "g_x g = concat (replicate (shape1 (node_pos data)) (eye (nat (n_nodes a))))"
    by (auto simp: build_graph_record_def Let_def assms(3) split: sum.splits prod.splits)
  from assms(2) show "g_n_frames g = shape1 (node_pos data)"
    by (auto simp: build_graph_record_def Let_def split: sum.splits prod.splits)
  from assms(2) show "reshape_nodes (node_pos data) = Inr (g_node_pos g)"
    by (auto simp: build_graph_record_def Let_def split: sum.splits prod.splits)
  from assms(2) show "\<exists>t. slice_edges self gc (shape1 (node_pos data)) = Inr (g_edges g, t)"
    by (auto simp: build_graph_record_def Let_def split: sum.splits prod.splits)
  from assms(2) show "g_label g = label data \<and> g_gloss g = gloss data \<and>
      g_split g = split data \<and> g_view g = view data"
    by (auto simp: build_graph_record_def Let_def split: sum.splits prod.splits)
qed

lemma build_graph_record_ok:
  assumes "slice_edges self gc (shape1 (node_pos data)) = Inr st" "node_pos data \<noteq> []"
  shows "\<exists>g. build_graph_record self gc data = Inr g"
  using assms
  by (cases st) (simp add: build_graph_record_def Let_def reshape_nodes_def reshape2_def shape0_def)

lemma update_fresh: "k \<notin> fst ` set al \<Longrightarrow> AList.update k v al = al @ [(k, v)]"
  by (induction al) auto

lemma graph_loop_result:
  "graph_loop self gc acc items = Inr res \<Longrightarrow> distinct (map fst acc @ map fst items) \<Longrightarrow>
   \<exists>gs. res = acc @ gs \<and>
     list_all2 (\<lambda>item out. fst out = fst item \<and>
        build_graph_record self gc (snd item) = Inr (snd out)) items gs"
proof (induction items arbitrary: acc)
  case Nil
  then show ?case by simp
next
  case (Cons item items)
  obtain vid data where item: "item = (vid, data)" by (cases item)
  from Cons.prems(1) item obtain g where
    g: "build_graph_record self gc data = Inr g" and
    rest: "graph_loop self gc (AList.update vid g acc) items = Inr res"
    by (auto split: sum.splits)
  have fresh: "vid \<notin> fst ` set acc" using Cons.prems(2) item by auto
  then have upd: "AList.update vid g acc = acc @ [(vid, g)]" by (rule update_fresh)
  have "distinct (map fst (acc @ [(vid, g)]) @ map fst items)"
    using Cons.prems(2) item by auto
  from Cons.IH[OF rest[unfolded upd] this] obtain gs where
    "res = (acc @ [(vid, g)]) @ gs" and
    "list_all2 (\<lambda>item out. fst out = fst item \<and>
        build_graph_record self gc (snd item) = Inr (snd out)) items gs"
    by blast
  then show ?case using g item by (intro exI[of _ "(vid, g) # gs"]) simp
qed

lemma build_graph_result:
  assumes "build_spatio_temporal_graph self a dd = Inr gdict" "distinct (map fst dd)"
  shows "\<exists>gc. builder_init dd a = Inr gc \<and>
      list_all2 (\<lambda>item out. fst out = fst item \<and>
        build_graph_record self gc (snd item) = Inr (snd out)) dd gdict"
proof -
  from assms(1) obtain gc where gc: "builder_init dd a = Inr gc"
    and loop: "graph_loop self gc [] dd = Inr gdict"
    by (auto simp: build_spatio_temporal_graph_def split: sum.splits)
  from graph_loop_result[OF loop] assms(2) gc show ?thesis by auto
qed


text \<open>
  C6. In the built template, for every node index \<open>n < N\<close> and every frame index
  \<open>f < F_max\<close>, the role-feature column of graph node \<open>f * N + n\<close> is the one-hot vector of
  length \<open>N\<close> with its 1 at position \<open>n\<close>, whatever \<open>f\<close> is.
\<close>

theorem role_features_one_hot:
  assumes "builder_init dd a = Inr gc" "n < nat (N_NODES gc)" "f < max_n_frames gc"
  shows "map (\<lambda>row. row ! (f * nat (N_NODES gc) + n)) (landmark_features gc)
           = one_hot (nat (N_NODES gc)) n"
  using tile_eye_column[OF assms(2,3)]
  by (simp add: builder_init_fields(3,8)[OF assms(1)])

lemma max_frames_reader_init: "max_frames (reader_init a) = 300"
  by (simp add: reader_init_def)

lemma reader_N_NODES_init: "reader_N_NODES (reader_init a) = n_nodes a"
  by (simp add: reader_init_def)

lemma t_contiguous_torch_tensor: "t_contiguous (torch_tensor es) = [map fst es, map snd es]"
  by (simp add: t_contiguous_def torch_tensor_def)

lemma slice_edges_spatial:
  assumes "builder_init dd a = Inr gc" "slice_edges self gc n = Inr (s, t)"
    and "n \<le> max_n_frames gc"
  shows "s = t_contiguous (torch_tensor
               (spatial_edge_list (min n (max_frames self)) (n_nodes a) default_inward_edges))"
proof -
  have "min n (max_frames self) \<le> max_n_frames gc" using assms(3) by simp
  from spatial_edge_list_prefix[OF this, of default_inward_edges "n_nodes a"]
  have "slice_to (int (min n (max_frames self) * 26))
          (spatial_edge_list (max_n_frames gc) (n_nodes a) default_inward_edges) =
        spatial_edge_list (min n (max_frames self)) (n_nodes a) default_inward_edges"
    by (simp only: slice_to_int length_default_inward_edges)
  then show ?thesis
    using assms(2) unfolding slice_edges_builder[OF assms(1)] t_contiguous_torch_tensor
    by (simp add: Let_def split: if_splits)
qed

lemma slice_edges_temporal:
  assumes "builder_init dd a = Inr gc" "slice_edges self gc n = Inr (s, t)"
    and "n \<le> max_n_frames gc" "1 \<le> n" "1 \<le> max_frames self"
  shows "t = t_contiguous (torch_tensor
               (temporal_edge_list (min n (max_frames self)) (n_nodes a)))"
proof -
  have "min n (max_frames self) \<le> max_n_frames gc" "1 \<le> min n (max_frames self)"
    using assms(3-5) by simp_all
  from temporal_slice[OF this(2) this(1), of "n_nodes a"]
  show ?thesis
    using assms(2) unfolding slice_edges_builder[OF assms(1)] t_contiguous_torch_tensor
    by (simp add: Let_def split: if_splits)
qed

lemma is_matrix_stacked_eye: "is_matrix (n * N) N (concat (replicate n (eye N)))"
  by (auto simp: is_matrix_def length_concat_replicate eye_def list_all_iff)

lemma list_all2_lookup:
  assumes "list_all2 (\<lambda>item out. fst out = fst item \<and> P (snd item) (snd out)) xs ys"
    and "distinct (map fst xs)" "(k, v) \<in> set xs"
  shows "\<exists>w. map_of ys k = Some w \<and> P v w"
  using assms
proof (induction xs ys rule: list_all2_induct)
  case Nil
  then show ?case by simp
next
  case (Cons x xs y ys)
  then show ?case by (cases x; cases y) force
qed

lemma list_all2_lookup_rev:
  assumes "list_all2 (\<lambda>item out. fst out = fst item \<and> P (snd item) (snd out)) xs ys"
    and "(k, w) \<in> set ys"
  shows "\<exists>v. (k, v) \<in> set xs \<and> P v w"
  using assms
proof (induction xs ys rule: list_all2_induct)
  case Nil
  then show ?case by simp
next
  case (Cons x xs y ys)
  then show ?case by (cases x; cases y) force
qed

lemma assembled_video:
  assumes "build_spatio_temporal_graph self a dd = Inr gdict" "distinct (map fst dd)"
    and "(vid, data) \<in> set dd"
  shows "\<exists>gc g. builder_init dd a = Inr gc \<and> map_of gdict vid = Some g \<and>
           build_graph_record self gc data = Inr g \<and>
           shape1 (node_pos data) \<le> max_n_frames gc"
proof -
  from build_graph_result[OF assms(1,2)] obtain gc where
    gc: "builder_init dd a = Inr gc" and
    all: "list_all2 (\<lambda>item out. fst out = fst item \<and>
            build_graph_record self gc (snd item) = Inr (snd out)) dd gdict"
    by blast
  from list_all2_lookup[OF all assms(2,3)] obtain g where
    "map_of gdict vid = Some g" "build_graph_record self gc data = Inr g" by blast
  then show ?thesis using gc builder_frames_ge[OF gc assms(3)] by blast
qed

lemma shape1_zero_pose: "shape1 (zero_pose n) = n"
  by (simp add: zero_pose_def shape1_def numeral_2_eq_2)

lemma zero_pose_not_Nil: "zero_pose n \<noteq> []"
  by (simp add: zero_pose_def numeral_2_eq_2)

lemma node_pos_video_of: "node_pos (video_of n sp vw) = zero_pose n"
  by (simp add: video_of_def)

lemma n_nodes_default: "n_nodes default_args = 27"
  by (simp add: default_args_def)

lemma one_video_build:
  assumes "2 \<le> n"
  shows "\<exists>g. build_spatio_temporal_graph (reader_init default_args) default_args (one_video n)
           = Inr [(''a'', g)]"
proof -
  obtain gc where gc: "builder_init (one_video n) default_args = Inr gc"
    using builder_init_ok[of "one_video n" default_args]
    by (auto simp: one_video_def n_nodes_default)
  have F: "max_n_frames gc = n"
    using builder_init_fields(1)[OF gc]
    by (simp add: one_video_def max_py_def node_pos_video_of shape1_zero_pose)
  have "\<exists>st. slice_edges (reader_init default_args) gc n = Inr st"
    unfolding slice_edges_builder[OF gc] using assms F by (simp add: n_nodes_default)
  then obtain g where
    "build_graph_record (reader_init default_args) gc (video_of n ''train'' 0) = Inr g"
    using build_graph_record_ok[of "reader_init default_args" gc "video_of n ''train'' 0"]
    by (auto simp: node_pos_video_of shape1_zero_pose zero_pose_not_Nil)
  then show ?thesis
    using gc by (simp add: build_spatio_temporal_graph_def one_video_def)
qed

lemma assembled_video_fields:
  assumes "build_spatio_temporal_graph (reader_init a) a dd = Inr gdict"
    and "distinct (map fst dd)" "(vid, data) \<in> set dd"
  shows "\<exists>gc g t. builder_init dd a = Inr gc \<and> map_of gdict vid = Some g \<and>
           slice_edges (reader_init a) gc (shape1 (node_pos data)) = Inr (g_edges g, t) \<and>
           g_edges g = t_contiguous (torch_tensor
              (spatial_edge_list (min (shape1 (node_pos data)) 300) (n_nodes a)
                 default_inward_edges)) \<and>
           (1 \<le> shape1 (node_pos data) \<longrightarrow> t = t_contiguous (torch_tensor
              (temporal_edge_list (min (shape1 (node_pos data)) 300) (n_nodes a)))) \<and>
           g_x g = concat (replicate (shape1 (node_pos data)) (eye (nat (n_nodes a)))) \<and>
           g_n_frames g = shape1 (node_pos data) \<and>
           reshape_nodes (node_pos data) = Inr (g_node_pos g) \<and>
           g_label g = label data \<and> g_gloss g = gloss data \<and> g_split g = split data \<and>
           g_view g = view data"
proof -
  from assembled_video[OF assms(1-3)] obtain gc g where
    gc: "builder_init dd a = Inr gc" and look: "map_of gdict vid = Some g" and
    g: "build_graph_record (reader_init a) gc data = Inr g" and
    le: "shape1 (node_pos data) \<le> max_n_frames gc"
    by blast
  note f = build_graph_record_fields[OF gc g reader_N_NODES_init le]
  from f(4) obtain t where
    t: "slice_edges (reader_init a) gc (shape1 (node_pos data)) = Inr (g_edges g, t)" by blast
  have s1: "g_edges g = t_contiguous (torch_tensor
              (spatial_edge_list (min (shape1 (node_pos data)) 300) (n_nodes a)
                 default_inward_edges))"
    using slice_edges_spatial[OF gc t le] by (simp add: max_frames_reader_init)
  have s2: "t = t_contiguous (torch_tensor
              (temporal_edge_list (min (shape1 (node_pos data)) 300) (n_nodes a)))"
    if "1 \<le> shape1 (node_pos data)"
    using slice_edges_temporal[OF gc t le that] by (simp add: max_frames_reader_init)
  show ?thesis
    using gc look t s1 s2 f(1,2,3,5) by auto
qed

lemma one_video_facts:
  "distinct (map fst (one_video n))" "(''a'', video_of n ''train'' 0) \<in> set (one_video n)"
  "shape1 (node_pos (video_of n sp vw)) = n"
  by (simp_all add: one_video_def node_pos_video_of shape1_zero_pose)

section \<open>The role features of the template, at an input\<close>

theorem role_features_one_hot_witness:
  "\<exists>gc. builder_init (one_video 2) default_args = Inr gc \<and>
     (5::nat) < nat (N_NODES gc) \<and> (1::nat) < max_n_frames gc \<and>
     map (\<lambda>row. row ! (1 * nat (N_NODES gc) + 5)) (landmark_features gc)
       = one_hot (nat (N_NODES gc)) 5"
proof -
  obtain gc where gc: "builder_init (one_video 2) default_args = Inr gc"
    using builder_init_ok[of "one_video 2" default_args]
    by (auto simp: one_video_def n_nodes_default)
  have F: "max_n_frames gc = 2"
    using builder_init_fields(1)[OF gc]
    by (simp add: one_video_def max_py_def node_pos_video_of shape1_zero_pose)
  have N: "N_NODES gc = 27"
    using builder_init_fields(3)[OF gc] by (simp add: n_nodes_default)
  have a: "(5::nat) < nat (N_NODES gc)" using N by simp
  have b: "(1::nat) < max_n_frames gc" using F by simp
  from role_features_one_hot[OF gc a b] gc a b show ?thesis by blast
qed

section \<open>Frame counts of the assembled record\<close>

text \<open>
  C4, as the claim states it, fails: for a video of 301 frames the edges are cut to the
  cap of 300 frames, but the role-feature matrix keeps \<open>301 * 27\<close> rows, not \<open>300 * 27\<close>.
\<close>

theorem feature_rows_capped_counterexample:
  "\<exists>g. build_spatio_temporal_graph (reader_init default_args) default_args (one_video 301)
          = Inr [(''a'', g)] \<and>
        length (g_x g) = 301 * 27 \<and> length (g_x g) \<noteq> 300 * 27 \<and>
        length (g_edges g ! 0) = 300 * 26"
proof -
  from one_video_build[of 301] obtain g0 where
    b: "build_spatio_temporal_graph (reader_init default_args) default_args (one_video 301)
          = Inr [(''a'', g0)]" by auto
  from assembled_video_fields[OF b one_video_facts(1,2)] show ?thesis
    using b
    by (auto simp: one_video_facts(3) n_nodes_default t_contiguous_torch_tensor
        length_spatial_edge_list length_default_inward_edges length_concat_replicate eye_def)
qed

text \<open>
  C4, amended. For every video with at least one frame, with \<open>n\<close> its frame count and
  \<open>f = min n 300\<close>: the record's spatial edges are those of a template built for \<open>f\<close> frames,
  and so is the temporal slice the assembly computes; the role features are cut to the
  video's own frame count \<open>n\<close>, not to \<open>f\<close>: they are \<open>n\<close> stacked \<open>N \<times> N\<close> identity matrices,
  of node-major shape \<open>(n * N) \<times> N\<close>.
\<close>

theorem assembly_frame_counts:
  assumes "build_spatio_temporal_graph (reader_init a) a dd = Inr gdict"
    and "distinct (map fst dd)" "(vid, data) \<in> set dd" "1 \<le> shape1 (node_pos data)"
  shows "\<exists>gc g t. builder_init dd a = Inr gc \<and> map_of gdict vid = Some g \<and>
           slice_edges (reader_init a) gc (shape1 (node_pos data)) = Inr (g_edges g, t) \<and>
           g_edges g = t_contiguous (torch_tensor
              (spatial_edge_list (min (shape1 (node_pos data)) (max_frames (reader_init a)))
                 (n_nodes a) default_inward_edges)) \<and>
           t = t_contiguous (torch_tensor
              (temporal_edge_list (min (shape1 (node_pos data)) (max_frames (reader_init a)))
                 (n_nodes a))) \<and>
           g_x g = concat (replicate (shape1 (node_pos data)) (eye (nat (n_nodes a)))) \<and>
           is_matrix (shape1 (node_pos data) * nat (n_nodes a)) (nat (n_nodes a)) (g_x g) \<and>
           max_frames (reader_init a) = 300"
proof -
  from assembled_video_fields[OF assms(1-3)] assms(4) show ?thesis
    using is_matrix_stacked_eye[of "shape1 (node_pos data)" "nat (n_nodes a)"]
    by (auto simp: max_frames_reader_init)
qed

theorem assembly_frame_counts_witness:
  "\<exists>g. build_spatio_temporal_graph (reader_init default_args) default_args (one_video 301)
          = Inr [(''a'', g)] \<and>
        length (g_edges g ! 0) = 300 * 26 \<and> length (g_x g) = 301 * 27"
proof -
  from one_video_build[of 301] obtain g0 where
    b: "build_spatio_temporal_graph (reader_init default_args) default_args (one_video 301)
          = Inr [(''a'', g0)]" by auto
  have d: "distinct (map fst (one_video 301))" by (simp add: one_video_def)
  have m: "(''a'', video_of 301 ''train'' 0) \<in> set (one_video 301)" by (simp add: one_video_def)
  have n: "1 \<le> shape1 (node_pos (video_of 301 ''train'' 0))"
    by (simp add: node_pos_video_of shape1_zero_pose)
  from assembly_frame_counts[OF b d m n] show ?thesis
    using b 
    by (auto simp: node_pos_video_of shape1_zero_pose n_nodes_default t_contiguous_torch_tensor
        length_spatial_edge_list length_default_inward_edges length_concat_replicate eye_def)
qed

text \<open>
  C10. The \<open>n_frames\<close> field of every assembled record is the frame count of the video's
  reduced pose tensor (\<open>node_pos.shape[1]\<close>, what \<open>_transform_data\<close> returned), without the
  cap of 300; for a video longer than the cap, the record's edge list is that of exactly
  300 frames, fewer than \<open>n_frames\<close>.
\<close>

theorem n_frames_field_uncapped:
  assumes "build_spatio_temporal_graph (reader_init a) a dd = Inr gdict"
    and "distinct (map fst dd)" "(vid, data) \<in> set dd"
  shows "\<exists>g. map_of gdict vid = Some g \<and> g_n_frames g = shape1 (node_pos data) \<and>
           max_frames (reader_init a) = 300 \<and>
           (max_frames (reader_init a) < shape1 (node_pos data) \<longrightarrow>
              g_edges g = t_contiguous (torch_tensor
                 (spatial_edge_list (max_frames (reader_init a)) (n_nodes a) default_inward_edges)) \<and>
              length (g_edges g ! 0) = max_frames (reader_init a) * length default_inward_edges \<and>
              max_frames (reader_init a) < g_n_frames g)"
proof -
  from assembled_video_fields[OF assms] obtain g where
    g: "map_of gdict vid = Some g" "g_n_frames g = shape1 (node_pos data)"
      "g_edges g = t_contiguous (torch_tensor
              (spatial_edge_list (min (shape1 (node_pos data)) 300) (n_nodes a)
                 default_inward_edges))"
    by blast
  have "min (shape1 (node_pos data)) 300 = 300" if "300 < shape1 (node_pos data)"
    using that by simp
  then show ?thesis
    using g by (auto simp: max_frames_reader_init t_contiguous_torch_tensor
        length_spatial_edge_list)
qed

theorem n_frames_field_uncapped_witness:
  "\<exists>g. build_spatio_temporal_graph (reader_init default_args) default_args (one_video 301)
          = Inr [(''a'', g)] \<and> g_n_frames g = 301 \<and>
        length (g_edges g ! 0) = 300 * 26 \<and> 300 < g_n_frames g"
proof -
  from one_video_build[of 301] obtain g0 where
    b: "build_spatio_temporal_graph (reader_init default_args) default_args (one_video 301)
          = Inr [(''a'', g0)]" by auto
  from n_frames_field_uncapped[OF b one_video_facts(1,2)] show ?thesis
    using b
    by (auto simp: one_video_facts(3) max_frames_reader_init length_default_inward_edges)
qed

section \<open>Temporal edges\<close>

lemma zip_fst_snd: "zip (map fst es) (map snd es) = es"
  by (induction es) auto

lemma spatial_2_27: "spatial_edge_list 2 27 default_inward_edges =
  default_inward_edges @ map (\<lambda>e. (27 + fst e, 27 + snd e)) default_inward_edges"
  by (simp add: spatial_edge_list_def range_py_def upt_conv_Cons)

lemma temporal_2_27: "temporal_edge_list 2 27 = map (\<lambda>n. (n, 27 + n)) (map int [0..<27])"
  by (simp add: temporal_edge_list_def range_py_def upt_conv_Cons)

lemma spatial_temporal_disjoint_2_27:
  "set (spatial_edge_list 2 27 default_inward_edges) \<inter> set (temporal_edge_list 2 27) = {}"
  unfolding spatial_2_27 temporal_2_27
  by (auto simp: default_inward_edges_def)

text \<open>
  C2 at a video of two frames with the default arguments: the assembly computes the
  \<open>1 * 27\<close> temporal edges, but the record it stores holds the \<open>2 * 26\<close> spatial edges only;
  none of its edges is a temporal edge.
\<close>

theorem temporal_edges_dropped_from_record:
  "\<exists>gc g t. builder_init (one_video 2) default_args = Inr gc \<and>
     build_spatio_temporal_graph (reader_init default_args) default_args (one_video 2)
        = Inr [(''a'', g)] \<and>
     slice_edges (reader_init default_args) gc 2 = Inr (g_edges g, t) \<and>
     length (g_edges g ! 0) = 2 * 26 \<and> length (t ! 0) = 1 * 27 \<and>
     set (zip (g_edges g ! 0) (g_edges g ! 1)) \<inter> set (zip (t ! 0) (t ! 1)) = {}"
proof -
  from one_video_build[of 2] obtain g0 where
    b: "build_spatio_temporal_graph (reader_init default_args) default_args (one_video 2)
          = Inr [(''a'', g0)]" by auto
  from assembled_video_fields[OF b one_video_facts(1,2)] show ?thesis
    using b spatial_temporal_disjoint_2_27
    by (auto simp: one_video_facts(3) n_nodes_default t_contiguous_torch_tensor
        length_spatial_edge_list length_temporal_edge_list length_default_inward_edges zip_fst_snd)
qed

lemma two_videos_builder:
  "\<exists>gc. builder_init two_videos default_args = Inr gc \<and> max_n_frames gc = 3"
proof -
  obtain gc where gc: "builder_init two_videos default_args = Inr gc"
    using builder_init_ok[of two_videos default_args]
    by (auto simp: two_videos_def n_nodes_default)
  have "max_n_frames gc = 3"
    using builder_init_fields(1)[OF gc]
    by (simp add: two_videos_def max_py_def node_pos_video_of shape1_zero_pose)
  then show ?thesis using gc by blast
qed

lemma temporal_negative_slice:
  "slice_to ((int 0 - 1) * 27) (temporal_edge_list 3 27) = temporal_edge_list 2 27"
proof -
  have "slice_to ((int 0 - 1) * 27) (temporal_edge_list 3 27) =
        take ((2 - 1) * nat 27) (temporal_edge_list 3 27)"
    by (simp add: slice_to_def length_temporal_edge_list)
  then show ?thesis
    using temporal_edge_list_prefix[of 2 3 27] by simp
qed

text \<open>
  C8 at a video without frames, in a dataset whose longest video has three frames: the
  assembly succeeds, but the temporal slice \<open>[:(0 - 1) * 27]\<close> drops the last 27 of the
  template's 54 temporal edges and keeps the first 27, so it is not empty. And for a
  dataset whose only video has one frame the template's temporal edge tensor is
  \<open>torch.tensor([])\<close>, of one dimension, and slicing it by rows raises \<open>IndexError\<close>.
\<close>

theorem degenerate_length_not_handled:
  "\<exists>gc ga gb t.
     builder_init two_videos default_args = Inr gc \<and>
     build_spatio_temporal_graph (reader_init default_args) default_args two_videos
       = Inr [(''a'', ga), (''b'', gb)] \<and>
     g_n_frames ga = 0 \<and>
     slice_edges (reader_init default_args) gc 0 = Inr (g_edges ga, t) \<and>
     t = t_contiguous (torch_tensor (temporal_edge_list 2 27)) \<and>
     length (t ! 0) = 27 \<and>
     build_spatio_temporal_graph (reader_init default_args) default_args (one_video 1)
       = Inl IndexError"
proof -
  let ?R = "reader_init default_args"
  from two_videos_builder obtain gc where
    gc: "builder_init two_videos default_args = Inr gc" and F: "max_n_frames gc = 3" by blast
  have ok: "\<exists>st. slice_edges ?R gc n = Inr st" for n
    unfolding slice_edges_builder[OF gc] using F by (simp add: n_nodes_default)
  obtain ga where ga: "build_graph_record ?R gc (video_of 0 ''train'' 0) = Inr ga"
    using ok[of 0] build_graph_record_ok[of ?R gc "video_of 0 ''train'' 0"]
    by (auto simp: node_pos_video_of shape1_zero_pose zero_pose_not_Nil)
  obtain gb where gb: "build_graph_record ?R gc (video_of 3 ''train'' 0) = Inr gb"
    using ok[of 3] build_graph_record_ok[of ?R gc "video_of 3 ''train'' 0"]
    by (auto simp: node_pos_video_of shape1_zero_pose zero_pose_not_Nil)
  have b: "build_spatio_temporal_graph ?R default_args two_videos = Inr [(''a'', ga), (''b'', gb)]"
    using gc ga gb by (simp add: build_spatio_temporal_graph_def two_videos_def)
  have le: "shape1 (node_pos (video_of 0 ''train'' 0)) \<le> max_n_frames gc"
    by (simp add: node_pos_video_of shape1_zero_pose)
  note f = build_graph_record_fields[OF gc ga reader_N_NODES_init le]
  from f(4) obtain t where t: "slice_edges ?R gc 0 = Inr (g_edges ga, t)"
    by (auto simp: node_pos_video_of shape1_zero_pose)
  have tt: "t = t_contiguous (torch_tensor (temporal_edge_list 2 27))"
    using t temporal_negative_slice unfolding slice_edges_builder[OF gc] t_contiguous_torch_tensor
    by (simp add: F n_nodes_default Let_def)
  have n0: "g_n_frames ga = 0"
    using f(2) by (simp add: node_pos_video_of shape1_zero_pose)
  obtain gc1 where gc1: "builder_init (one_video 1) default_args = Inr gc1"
    using builder_init_ok[of "one_video 1" default_args]
    by (auto simp: one_video_def n_nodes_default)
  have F1: "max_n_frames gc1 = 1"
    using builder_init_fields(1)[OF gc1]
    by (simp add: one_video_def max_py_def node_pos_video_of shape1_zero_pose)
  have "slice_edges ?R gc1 n = Inl IndexError" for n
    unfolding slice_edges_builder[OF gc1] using F1 by simp
  then have "build_graph_record ?R gc1 (video_of 1 ''train'' 0) = Inl IndexError"
    by (simp add: build_graph_record_def Let_def)
  then have e: "build_spatio_temporal_graph ?R default_args (one_video 1) = Inl IndexError"
    using gc1 by (simp add: build_spatio_temporal_graph_def one_video_def)
  show ?thesis
    using gc b n0 t tt e
    by (auto simp: t_contiguous_torch_tensor length_temporal_edge_list)
qed

section \<open>The loaders\<close>

lemma load_data_loop_Inr:
  assumes "load_data_loop a ei items = Inr (ds, ei')"
    and "temporal_configuration a = ''spatio_temporal'' \<or> ei = loader_init_edge_index a"
  shows "ds = map (\<lambda>item. make_data
               (if temporal_configuration a = ''spatio_temporal'' then g_edges (snd item)
                else t_contiguous (torch_tensor default_inward_edges)) (snd item)) items \<and>
         (temporal_configuration a = ''spatio_temporal'' \<or> ei' = loader_init_edge_index a)"
  using assms
proof (induction items arbitrary: ei ds)
  case Nil
  then show ?case by auto
next
  case (Cons item items)
  obtain vid g where item: "item = (vid, g)" by (cases item)
  show ?case
  proof (cases "temporal_configuration a = ''spatio_temporal''")
    case True
    from Cons.prems(1) item True obtain ds1 where
      r: "load_data_loop a (Some (g_edges g)) items = Inr (ds1, ei')" and
      d: "ds = make_data (g_edges g) g # ds1"
      by (auto split: sum.splits)
    from Cons.IH[OF r] True d item show ?thesis by simp
  next
    case False
    with Cons.prems(2) have ei: "ei = loader_init_edge_index a" by simp
    from Cons.prems(1) item False obtain e ds1 where
      e: "ei = Some e" and
      r: "load_data_loop a ei items = Inr (ds1, ei')" and
      d: "ds = make_data e g # ds1"
      by (auto split: sum.splits option.splits)
    have "e = t_contiguous (torch_tensor default_inward_edges)"
      using e ei by (auto simp: loader_init_edge_index_def split: if_splits)
    with Cons.IH[OF r] ei False d item show ?thesis by simp
  qed
qed

lemma split_dataset_eq:
  "split_dataset dd =
     (filter (\<lambda>(k, v). g_split v = ''train'') dd,
      filter (\<lambda>(k, v). g_split v = ''val'') dd,
      [filter (\<lambda>(k, v). g_split v = ''test'' \<and> g_view v = 0) dd,
       filter (\<lambda>(k, v). g_split v = ''test'' \<and> g_view v = 1) dd,
       filter (\<lambda>(k, v). g_split v = ''test'' \<and> g_view v = 2) dd])"
  by (simp add: split_dataset_def Let_def)

lemma build_loaders_datasets:
  assumes "build_loaders a gd = Inr (train_loader, val_loader, test_loader)"
    and "split_dataset gd = (train, val, tests)"
  shows "length test_loader = 3 \<and>
    dataset train_loader = map (\<lambda>item. make_data
               (if temporal_configuration a = ''spatio_temporal'' then g_edges (snd item)
                else t_contiguous (torch_tensor default_inward_edges)) (snd item)) train \<and>
    dataset val_loader = map (\<lambda>item. make_data
               (if temporal_configuration a = ''spatio_temporal'' then g_edges (snd item)
                else t_contiguous (torch_tensor default_inward_edges)) (snd item)) val \<and>
    (\<forall>i<3. dataset (test_loader ! i) = map (\<lambda>item. make_data
               (if temporal_configuration a = ''spatio_temporal'' then g_edges (snd item)
                else t_contiguous (torch_tensor default_inward_edges)) (snd item)) (tests ! 0)) \<and>
    batch_size train_loader = args_batch_size a \<and> shuffle train_loader \<and>
    \<not> shuffle val_loader \<and> (\<forall>i<3. \<not> shuffle (test_loader ! i))"
proof -
  let ?st = "temporal_configuration a = ''spatio_temporal''"
  from assms obtain ds1 e1 ds2 e2 ds3 e3 ds4 e4 ds5 e5 where
    l1: "load_data_loop a (loader_init_edge_index a) train = Inr (ds1, e1)" and
    l2: "load_data_loop a e1 val = Inr (ds2, e2)" and
    l3: "load_data_loop a e2 (tests ! 0) = Inr (ds3, e3)" and
    l4: "load_data_loop a e3 (tests ! 0) = Inr (ds4, e4)" and
    l5: "load_data_loop a e4 (tests ! 0) = Inr (ds5, e5)" and
    tl: "train_loader = \<lparr>dataset = ds1, batch_size = args_batch_size a, shuffle = True\<rparr>" and
    vl: "val_loader = \<lparr>dataset = ds2, batch_size = args_batch_size a, shuffle = False\<rparr>" and
    te: "test_loader =
          [\<lparr>dataset = ds3, batch_size = args_batch_size a, shuffle = False\<rparr>,
           \<lparr>dataset = ds4, batch_size = args_batch_size a, shuffle = False\<rparr>,
           \<lparr>dataset = ds5, batch_size = args_batch_size a, shuffle = False\<rparr>]"
    by (auto simp: build_loaders_def load_data_def split: sum.splits prod.splits if_splits)
  note r1 = load_data_loop_Inr[OF l1]
  have i1: "?st \<or> e1 = loader_init_edge_index a" using r1 by blast
  note r2 = load_data_loop_Inr[OF l2 i1]
  have i2: "?st \<or> e2 = loader_init_edge_index a" using r2 by blast
  note r3 = load_data_loop_Inr[OF l3 i2]
  have i3: "?st \<or> e3 = loader_init_edge_index a" using r3 by blast
  note r4 = load_data_loop_Inr[OF l4 i3]
  have i4: "?st \<or> e4 = loader_init_edge_index a" using r4 by blast
  note r5 = load_data_loop_Inr[OF l5 i4]
  have three: "\<forall>i<3. P i" if "P 0" "P 1" "P 2" for P :: "nat \<Rightarrow> bool"
  proof (intro allI impI)
    fix i :: nat assume "i < 3"
    then have "i = 0 \<or> i = 1 \<or> i = 2" by arith
    then show "P i" using that by blast
  qed
  have a: "\<forall>i<3. dataset (test_loader ! i) = map (\<lambda>item. make_data
               (if temporal_configuration a = ''spatio_temporal'' then g_edges (snd item)
                else t_contiguous (torch_tensor default_inward_edges)) (snd item)) (tests ! 0)"
    by (rule three) (use r3 r4 r5 te in simp_all)
  have b: "\<forall>i<3. \<not> shuffle (test_loader ! i)"
    by (rule three) (use te in simp_all)
  show ?thesis
    using r1 r2 tl vl te a b by simp
qed

lemma load_data_loop_ok:
  "temporal_configuration a = ''spatio_temporal'' \<Longrightarrow>
   \<exists>ds ei'. load_data_loop a ei items = Inr (ds, ei')"
proof (induction items arbitrary: ei)
  case Nil
  then show ?case by simp
next
  case (Cons item items)
  obtain vid g where item: "item = (vid, g)" by (cases item)
  from Cons.IH[OF Cons.prems, of "Some (g_edges g)"] obtain ds ei' where
    "load_data_loop a (Some (g_edges g)) items = Inr (ds, ei')" by blast
  then show ?case using item Cons.prems by simp
qed

lemma load_data_ok:
  assumes "temporal_configuration a = ''spatio_temporal''" "0 < args_batch_size a"
    and "\<not> (shuf \<and> items = [])"
  shows "\<exists>l ei'. load_data a ei items shuf = Inr (l, ei')"
proof -
  from load_data_loop_ok[OF assms(1), of ei items] obtain ds ei' where
    l: "load_data_loop a ei items = Inr (ds, ei')" by blast
  from load_data_loop_Inr[OF l] assms(1) have "ds = [] \<longleftrightarrow> items = []" by simp
  then show ?thesis using l assms(2,3) by (simp add: load_data_def)
qed

lemma build_loaders_ok:
  assumes "temporal_configuration a = ''spatio_temporal''" "0 < args_batch_size a"
    and "split_dataset gd = (train, val, tests)" "train \<noteq> []"
  shows "\<exists>trl vl tls. build_loaders a gd = Inr (trl, vl, tls)"
proof -
  obtain l1 e1 where l1: "load_data a (loader_init_edge_index a) train True = Inr (l1, e1)"
    using load_data_ok[OF assms(1,2), of True train] assms(4) by blast
  obtain l2 e2 where l2: "load_data a e1 val False = Inr (l2, e2)"
    using load_data_ok[OF assms(1,2), of False val] by blast
  obtain l3 e3 where l3: "load_data a e2 (tests ! 0) False = Inr (l3, e3)"
    using load_data_ok[OF assms(1,2), of False "tests ! 0"] by blast
  obtain l4 e4 where l4: "load_data a e3 (tests ! 0) False = Inr (l4, e4)"
    using load_data_ok[OF assms(1,2), of False "tests ! 0"] by blast
  obtain l5 e5 where l5: "load_data a e4 (tests ! 0) False = Inr (l5, e5)"
    using load_data_ok[OF assms(1,2), of False "tests ! 0"] by blast
  show ?thesis
    using assms(3) l1 l2 l3 l4 l5 by (simp add: build_loaders_def)
qed

lemma batch_size_default: "0 < args_batch_size default_args"
  by (simp add: default_args_def)

lemma mode_default: "temporal_configuration default_args = ''spatio_temporal''"
  by (simp add: default_args_def)

text \<open>
  C3 at a video of two frames in the \<open>spatio_temporal\<close> mode: the edge index of the graph
  handed to the batching layer is the record's \<open>edges\<close>, that is the 52 spatial edges; the
  27 temporal edges of the video are not in it.
\<close>

theorem loader_edge_index_spatial_only:
  "\<exists>g train_loader val_loader test_loader.
     build_spatio_temporal_graph (reader_init default_args) default_args (one_video 2)
        = Inr [(''a'', g)] \<and>
     build_loaders default_args [(''a'', g)] = Inr (train_loader, val_loader, test_loader) \<and>
     map d_edge_index (dataset train_loader)
        = [t_contiguous (torch_tensor (spatial_edge_list 2 27 default_inward_edges))] \<and>
     length (temporal_edge_list 2 27) = 27 \<and>
     set (spatial_edge_list 2 27 default_inward_edges) \<inter> set (temporal_edge_list 2 27) = {}"
proof -
  from one_video_build[of 2] obtain g where
    b: "build_spatio_temporal_graph (reader_init default_args) default_args (one_video 2)
          = Inr [(''a'', g)]" by auto
  from assembled_video_fields[OF b one_video_facts(1,2)] have
    e: "g_edges g = t_contiguous (torch_tensor (spatial_edge_list 2 27 default_inward_edges))"
    and sp: "g_split g = ''train''"
    using b by (auto simp: one_video_facts(3) n_nodes_default video_of_def shape1_zero_pose)
  have s: "split_dataset [(''a'', g)] = ([(''a'', g)], [], [[], [], []])"
    using sp by (simp add: split_dataset_eq)
  obtain trl vl tls where l: "build_loaders default_args [(''a'', g)] = Inr (trl, vl, tls)"
    using build_loaders_ok[OF mode_default batch_size_default s] by blast
  from build_loaders_datasets[OF l s] have "dataset trl = [make_data (g_edges g) g]"
    by (simp add: mode_default)
  then have "map d_edge_index (dataset trl)
      = [t_contiguous (torch_tensor (spatial_edge_list 2 27 default_inward_edges))]"
    using e by (simp add: make_data_def)
  then show ?thesis
    using b l spatial_temporal_disjoint_2_27 by (auto simp: length_temporal_edge_list)
qed




section \<open>Videos without a keypoint record\<close>

lemma labels_of_drop_video: "labels_of (drop_video vid gd) = labels_of gd"
proof -
  have m: "map fst (drop_video vid gd) = map fst gd"
    by (induction gd) (auto simp: drop_video_def)
  have l: "length (drop_video vid gd) = length gd"
    by (simp add: drop_video_def)
  show ?thesis by (simp only: labels_of_def m l)
qed

lemma instances_of_drop_video:
  "instances_of (drop_video vid gd) = filter (\<lambda>x. fst (snd x) \<noteq> vid) (instances_of gd)"
  by (induction gd) (auto simp: instances_of_def drop_video_def filter_map comp_def)

lemma load_loop_skip:
  assumes "st vid = None"
  shows "load_loop self sn st labels acc (filter (\<lambda>x. fst (snd x) \<noteq> vid) xs) =
         load_loop self sn st labels acc xs"
proof (induction xs arbitrary: acc)
  case Nil
  then show ?case by simp
next
  case (Cons x xs)
  obtain gl v sp vw where x: "x = (gl, v, sp, vw)" by (cases x) auto
  show ?case
  proof (cases "v = vid")
    case True
    then show ?thesis using Cons.IH x assms by simp
  next
    case False
    then show ?thesis using Cons.IH x
      by (simp split: option.splits sum.splits)
  qed
qed

lemma load_loop_keys:
  "load_loop self sn st labels acc xs = Inr dd \<Longrightarrow>
   fst ` set dd \<subseteq> fst ` set acc \<union> dom st"
proof (induction xs arbitrary: acc)
  case Nil
  then show ?case by auto
next
  case (Cons x xs)
  obtain gl v sp vw where x: "x = (gl, v, sp, vw)" by (cases x) auto
  show ?case
  proof (cases "st v")
    case None
    then show ?thesis using Cons x by simp
  next
    case (Some kps)
    from Cons.prems x Some obtain l pos where
      r: "load_loop self sn st labels
            (AList.update v \<lparr>label = l, gloss = gl, node_pos = pos, split = sp, view = vw\<rparr> acc)
            xs = Inr dd"
      by (auto split: option.splits sum.splits)
    from Cons.IH[OF r] Some show ?thesis
      by (auto simp: AList.dom_update)
  qed
qed

lemma load_loop_distinct:
  "load_loop self sn st labels acc xs = Inr dd \<Longrightarrow> distinct (map fst acc) \<Longrightarrow>
   distinct (map fst dd)"
proof (induction xs arbitrary: acc)
  case Nil
  then show ?case by auto
next
  case (Cons x xs)
  obtain gl v sp vw where x: "x = (gl, v, sp, vw)" by (cases x) auto
  show ?case
  proof (cases "st v")
    case None
    then show ?thesis using Cons x by simp
  next
    case (Some kps)
    from Cons.prems(1) x Some obtain l pos where
      r: "load_loop self sn st labels
            (AList.update v \<lparr>label = l, gloss = gl, node_pos = pos, split = sp, view = vw\<rparr> acc)
            xs = Inr dd"
      by (auto split: option.splits sum.splits)
    from Cons.IH[OF r] Cons.prems(2) show ?thesis
      by (simp add: AList.distinct_update)
  qed
qed

lemma load_pose_data_distinct:
  "load_pose_data self sn st gd = Inr dd \<Longrightarrow> distinct (map fst dd)"
  using load_loop_distinct[of self sn st "labels_of gd" "[]" "instances_of gd" dd]
  by (simp add: load_pose_data_def)

lemma list_all2_keys:
  "list_all2 (\<lambda>item out. fst out = fst item \<and> P (snd item) (snd out)) xs ys \<Longrightarrow>
   map fst ys = map fst xs"
  by (induction xs ys rule: list_all2_induct) auto

lemma graph_dict_keys:
  assumes "build_spatio_temporal_graph self a dd = Inr gdict" "distinct (map fst dd)"
  shows "map fst gdict = map fst dd"
proof -
  from build_graph_result[OF assms] obtain gc where
    all: "list_all2 (\<lambda>item out. fst out = fst item \<and>
            build_graph_record self gc (snd item) = Inr (snd out)) dd gdict"
    by blast
  show ?thesis
    by (rule list_all2_keys[where P = "\<lambda>d g. build_graph_record self gc d = Inr g", OF all])
qed

lemma replicate_27:
  "replicate 27 x = [x, x, x, x, x, x, x, x, x, x, x, x, x, x, x, x, x, x, x, x, x, x, x, x,
     x, x, x]"
  by (simp add: eval_nat_numeral)

lemma example_transform:
  "transform_data (reader_init default_args) sn
     (first_two_coords (replicate 2 (replicate 75 [0, 0, 0]))) = Inr (zero_pose 2)"
  by (simp add: transform_data_def pose_select_def permute_201_def first_two_coords_def
      pose_indexes_def reader_init_def default_args_def zero_pose_def numeral_2_eq_2
      upt_conv_Cons replicate_27)

lemma example_load:
  "load_pose_data (reader_init default_args) sn example_store example_gloss_dict
     = Inr (one_video 2)"
  using example_transform[of sn]
  by (simp add: load_pose_data_def labels_of_def instances_of_def example_gloss_dict_def
      example_store_def one_video_def video_of_def)

text \<open>
  C9. A video id listed in the metadata without a record in the keypoint store is
  skipped: \<open>_load_pose_data\<close> returns what it returns for the metadata without that video,
  so the listing raises nothing; and the id is a key neither of the data dictionary, nor
  of the graph dictionary, nor of any partition.
\<close>

theorem missing_video_excluded:
  assumes "st vid = None"
  shows "load_pose_data self sn st gd = load_pose_data self sn st (drop_video vid gd) \<and>
    (\<forall>dd gdict train val tests.
       load_pose_data self sn st gd = Inr dd \<longrightarrow>
       build_spatio_temporal_graph self a dd = Inr gdict \<longrightarrow>
       split_dataset gdict = (train, val, tests) \<longrightarrow>
         vid \<notin> fst ` set dd \<and> vid \<notin> fst ` set gdict \<and>
         vid \<notin> fst ` set train \<and> vid \<notin> fst ` set val \<and>
         (\<forall>p\<in>set tests. vid \<notin> fst ` set p))"
proof -
  have same: "load_pose_data self sn st gd = load_pose_data self sn st (drop_video vid gd)"
    by (simp add: load_pose_data_def labels_of_drop_video instances_of_drop_video
        load_loop_skip[where st = st and vid = vid, OF assms])
  have rest: "vid \<notin> fst ` set dd \<and> vid \<notin> fst ` set gdict \<and>
         vid \<notin> fst ` set train \<and> vid \<notin> fst ` set val \<and>
         (\<forall>p\<in>set tests. vid \<notin> fst ` set p)"
    if l: "load_pose_data self sn st gd = Inr dd"
      and b: "build_spatio_temporal_graph self a dd = Inr gdict"
      and s: "split_dataset gdict = (train, val, tests)"
    for dd gdict train val tests
  proof -
    have "fst ` set dd \<subseteq> dom st"
      using load_loop_keys[of self sn st "labels_of gd" "[]" "instances_of gd" dd] l
      by (simp add: load_pose_data_def)
    then have d: "vid \<notin> fst ` set dd" using assms by auto
    have "map fst gdict = map fst dd"
      using graph_dict_keys[OF b load_pose_data_distinct[OF l]] .
    then have "fst ` set gdict = fst ` set dd"
      by (metis set_map)
    then have g: "vid \<notin> fst ` set gdict" using d by simp
    have "set train \<subseteq> set gdict" "set val \<subseteq> set gdict" "\<forall>p\<in>set tests. set p \<subseteq> set gdict"
      using s by (auto simp: split_dataset_eq)
    then show ?thesis using d g by blast
  qed
  show ?thesis using same rest by blast
qed

theorem missing_video_excluded_witness:
  "example_store ''missing'' = None \<and>
   load_pose_data (reader_init default_args) id example_store example_gloss_dict
     = load_pose_data (reader_init default_args) id example_store
         (drop_video ''missing'' example_gloss_dict) \<and>
   load_pose_data (reader_init default_args) id example_store example_gloss_dict
     = Inr (one_video 2) \<and>
   ''missing'' \<notin> fst ` set (one_video 2) \<and>
   (\<exists>g. build_spatio_temporal_graph (reader_init default_args) default_args (one_video 2)
          = Inr [(''a'', g)] \<and> ''missing'' \<notin> fst ` set [(''a'', g)])"
proof -
  have n: "example_store ''missing'' = None" by (simp add: example_store_def)
  from one_video_build[of 2] obtain g where
    b: "build_spatio_temporal_graph (reader_init default_args) default_args (one_video 2)
          = Inr [(''a'', g)]" by auto
  from missing_video_excluded[where st = example_store and vid = "''missing''"
      and self = "reader_init default_args" and sn = id and gd = example_gloss_dict, OF n]
  have "load_pose_data (reader_init default_args) id example_store example_gloss_dict
     = load_pose_data (reader_init default_args) id example_store
         (drop_video ''missing'' example_gloss_dict)"
    by blast
  then show ?thesis
    using n b example_load[of id] by (simp add: one_video_def)
qed

end
